theory Spec2Isabelle
  imports Complex_Main
begin

section \<open>Bayesian walkthrough notebook: posterior parameters and simulated elections\<close>

text \<open>
  The notebook has no function called \<open>update\<close>, \<open>sample\<close> or \<open>winProbability\<close>: it
  performs these steps in code cells, on literals. The definitions below are those cells,
  with the literals taken as arguments.

  Numbers: the shape parameters are Python numbers (the cells use \<open>int\<close> literals, the
  function \<open>plot_beta_binomial\<close> accepts floats as well) and are modelled as \<open>real\<close>;
  the survey counts are Python \<open>int\<close>s and are modelled as \<open>int\<close>. Arithmetic on
  finite values is exact: the rounding of IEEE doubles is not modelled.
\<close>

subsection \<open>Posterior parameters\<close>

record BetaParams =
  alpha :: real
  beta :: real

record SurveyObservation =
  trials :: int
  successes :: int

text \<open>
  The posterior-sampling cells compute the shape parameters passed to \<open>np.random.beta\<close> as
  \<^verbatim>\<open>np.random.beta(7 + 30, 5 + (40-30), 100000)\<close> and
  \<^verbatim>\<open>np.random.beta(10 + 55, 40 + (100-55), 100000)\<close>, after the markdown cell that
  states the rule: a Beta(alpha, beta) prior and a Binomial(n, k) likelihood give a
  Beta(alpha + k, beta + (n - k)) posterior. Neither cell checks its operands.
\<close>

definition update :: "BetaParams \<Rightarrow> SurveyObservation \<Rightarrow> BetaParams" where
  "update prior obs =
     \<lparr>alpha = alpha prior + of_int (successes obs),
      beta = beta prior + of_int (trials obs - successes obs)\<rparr>"

subsection \<open>Simulated elections\<close>

text \<open>
  Values that numpy and scipy hand back: a finite number (kept exact), an infinity, or
  not-a-number.
\<close>

datatype npfloat = Finite real | PosInf | NegInf | NaN

text \<open>
  \<^verbatim>\<open>elections = [1 if i > 0.5 else 0 for i in p_d]\<close>; the cell's literal \<open>0.5\<close> is
  the argument \<open>threshold\<close>.
\<close>

definition elections :: "real \<Rightarrow> real list \<Rightarrow> nat list" where
  "elections threshold p_d = [if i > threshold then 1 else 0. i \<leftarrow> p_d]"

text \<open>
  \<open>np.mean\<close> of a list of integers (numpy, not part of the repository): the sum divided by
  the number of elements. On an empty list numpy divides zero by zero: it emits a
  RuntimeWarning and returns \<open>nan\<close>; it raises nothing.
\<close>

definition np_mean :: "nat list \<Rightarrow> npfloat" where
  "np_mean xs =
     (if xs = [] then NaN else Finite (real (sum_list xs) / real (length xs)))"

text \<open>The two cells together: \<^verbatim>\<open>np.mean(elections)\<close>.\<close>

definition winProbability :: "real \<Rightarrow> real list \<Rightarrow> npfloat" where
  "winProbability threshold p_d = np_mean (elections threshold p_d)"

subsection \<open>The sampling cell\<close>

text \<open>Exceptions of Python and numpy that the notebook's code can raise.\<close>

datatype py_error = ZeroDivisionError | ValueError

text \<open>
  The sampling cells are
  \<^verbatim>\<open>np.random.seed(42)\<close> followed by
  \<^verbatim>\<open>p_d = np.random.beta(7 + 30, 5 + (40-30), 100000)\<close>;
  the literals \<open>42\<close>, the shape parameters and \<open>100000\<close> are arguments here.
  numpy keeps one process-wide generator; \<open>g\<close> is its state before the cell runs, and
  the result is what the cell leaves in \<open>p_d\<close>, or the exception it raises, together
  with the generator state afterwards.

  numpy is not part of the repository. Its argument checks are written out:
  \<open>np.random.seed\<close> raises \<open>ValueError\<close> for a seed outside \<open>0 .. 2\<^bsup>32\<^esup> - 1\<close> and
  leaves the generator alone; \<open>np.random.beta\<close> raises \<open>ValueError\<close> for a shape
  parameter that is not positive and for a negative size. What the generator computes
  past those checks is the two arguments \<open>np_random_seed\<close> (the state a seed stands for)
  and \<open>np_random_beta\<close> (the draws from a state, and the state left behind). As HOL
  functions they are deterministic; no property below rests on that.
\<close>

definition sample ::
  "(int \<Rightarrow> 'g) \<Rightarrow> ('g \<Rightarrow> real \<Rightarrow> real \<Rightarrow> nat \<Rightarrow> real list \<times> 'g)
     \<Rightarrow> BetaParams \<Rightarrow> int \<Rightarrow> int \<Rightarrow> 'g \<Rightarrow> (py_error + real list) \<times> 'g" where
  "sample np_random_seed np_random_beta params count seed g =
     (if seed < 0 \<or> 2 ^ 32 \<le> seed then (Inl ValueError, g)
      else
        let g1 = np_random_seed seed
        in if alpha params \<le> 0 \<or> beta params \<le> 0 \<or> count < 0 then (Inl ValueError, g1)
           else
             let (p_d, g2) = np_random_beta g1 (alpha params) (beta params) (nat count)
             in (Inr p_d, g2))"

subsection \<open>The plot of prior, likelihood and posterior\<close>

text \<open>
  \<open>np.multiply\<close> on two values: the IEEE product, exact on finite values. An infinity
  times zero is not-a-number.
\<close>

fun np_multiply :: "npfloat \<Rightarrow> npfloat \<Rightarrow> npfloat" where
  "np_multiply (Finite x) (Finite y) = Finite (x * y)"
| "np_multiply NaN _ = NaN"
| "np_multiply _ NaN = NaN"
| "np_multiply PosInf (Finite y) = (if 0 < y then PosInf else if y < 0 then NegInf else NaN)"
| "np_multiply NegInf (Finite y) = (if 0 < y then NegInf else if y < 0 then PosInf else NaN)"
| "np_multiply (Finite x) PosInf = (if 0 < x then PosInf else if x < 0 then NegInf else NaN)"
| "np_multiply (Finite x) NegInf = (if 0 < x then NegInf else if x < 0 then PosInf else NaN)"
| "np_multiply PosInf PosInf = PosInf"
| "np_multiply PosInf NegInf = NegInf"
| "np_multiply NegInf PosInf = NegInf"
| "np_multiply NegInf NegInf = PosInf"

text \<open>
  The power of a base \<open>x \<ge> 0\<close> with a real exponent \<open>y\<close>, as the densities of scipy
  need it: the power with exponent 0 is 1, also for the base 0; the base 0 with a positive
  exponent gives 0 and with a negative exponent gives infinity. (HOL's \<open>powr\<close> alone
  would give \<open>0 powr y = 0\<close> for every \<open>y\<close>.)
\<close>

definition xpowy :: "real \<Rightarrow> real \<Rightarrow> npfloat" where
  "xpowy x y =
     (if y = 0 then Finite 1
      else if 0 < x then Finite (x powr y)
      else if 0 < y then Finite 0
      else PosInf)"

text \<open>
  \<^verbatim>\<open>beta(a, b).pdf(x)\<close> of scipy.stats (not part of the repository), from its
  mathematical definition \<^verbatim>\<open>x^(a-1) * (1-x)^(b-1) / B(a, b)\<close>: not-a-number for
  shape parameters that are not positive, 0 outside \<open>[0, 1]\<close>. The Beta function needs
  the Gamma function; it is the argument \<open>B\<close>, and the properties below use nothing of
  it but that it is positive.
\<close>

definition beta_pdf :: "(real \<Rightarrow> real \<Rightarrow> real) \<Rightarrow> real \<Rightarrow> real \<Rightarrow> real \<Rightarrow> npfloat" where
  "beta_pdf B a b x =
     (if a \<le> 0 \<or> b \<le> 0 then NaN
      else if x < 0 \<or> 1 < x then Finite 0
      else np_multiply (np_multiply (xpowy x (a - 1)) (xpowy (1 - x) (b - 1)))
             (Finite (1 / B a b)))"

text \<open>
  \<^verbatim>\<open>binom(n, p).pmf(k)\<close> of scipy.stats, from its mathematical definition
  \<^verbatim>\<open>(n choose k) * p^k * (1-p)^(n-k)\<close>: not-a-number for \<open>n < 0\<close> or \<open>p\<close>
  outside \<open>[0, 1]\<close>, 0 for \<open>k\<close> outside \<open>0..n\<close>.
\<close>

definition binom_pmf :: "int \<Rightarrow> real \<Rightarrow> int \<Rightarrow> npfloat" where
  "binom_pmf n p k =
     (if n < 0 \<or> p < 0 \<or> 1 < p then NaN
      else if k < 0 \<or> n < k then Finite 0
      else Finite (real (nat n choose nat k) * p ^ nat k * (1 - p) ^ nat (n - k)))"

text \<open>\<^verbatim>\<open>np.linspace(0, 1, n_steps)\<close>: \<open>n_steps\<close> evenly spaced points, both ends included.\<close>

definition linspace01 :: "nat \<Rightarrow> real list" where
  "linspace01 n_steps =
     (if n_steps = 1 then [0] else [real i / real (n_steps - 1). i \<leftarrow> [0..<n_steps]])"

text \<open>
  What \<open>plot_beta_binomial\<close> hands to matplotlib: the positions of the three dashed
  vertical lines (prior mean, maximum-likelihood value, posterior mean) and the three
  curves over the grid.
\<close>

record beta_binomial_plot =
  vlines :: "real list"
  prior_curve :: "(real \<times> npfloat) list"
  likelihood_curve :: "(real \<times> npfloat) list"
  posterior_curve :: "(real \<times> npfloat) list"

text \<open>
  \<^verbatim>\<open>def plot_beta_binomial(a, b, n_trials, n_successes, n_steps = 200)\<close>.
  The three lists are computed first. The positions of the vertical lines are Python
  divisions, which raise \<open>ZeroDivisionError\<close> on a zero divisor; the height of the lines
  is a \<open>max\<close> over the lists, which raises \<open>ValueError\<close> on an empty grid.
\<close>

definition plot_beta_binomial ::
  "(real \<Rightarrow> real \<Rightarrow> real) \<Rightarrow> real \<Rightarrow> real \<Rightarrow> int \<Rightarrow> int \<Rightarrow> nat
     \<Rightarrow> py_error + beta_binomial_plot" where
  "plot_beta_binomial B a b n_trials n_successes n_steps =
     (let lst = linspace01 n_steps;
          prior = [beta_pdf B a b i. i \<leftarrow> lst];
          likelihood = [binom_pmf n_trials i n_successes. i \<leftarrow> lst];
          posterior = map2 np_multiply prior likelihood
      in if a + b = 0 \<or> n_trials = 0 \<or> a + b + of_int n_trials = 0 then Inl ZeroDivisionError
         else if lst = [] then Inl ValueError
         else Inr \<lparr>vlines = [a / (a + b), of_int n_successes / of_int n_trials,
                             (a + of_int n_successes) / (a + b + of_int n_trials)],
                   prior_curve = zip lst prior,
                   likelihood_curve = zip lst likelihood,
                   posterior_curve = zip lst posterior\<rparr>)"

text \<open>
  The factor between the plotted product and the normalised posterior density. The
  notebook does not compute it; it is what the properties below name.
\<close>

definition posterior_constant ::
  "(real \<Rightarrow> real \<Rightarrow> real) \<Rightarrow> real \<Rightarrow> real \<Rightarrow> int \<Rightarrow> int \<Rightarrow> real" where
  "posterior_constant B a b n k =
     real (nat n choose nat k) * B (a + of_int k) (b + of_int (n - k)) / B a b"

section \<open>Dashboard notebook: the histogram of simulated seat counts\<close>

text \<open>
  \<^verbatim>\<open>hist_dict_dem = {i: list(simulations).count(i) for i in set(simulations) if i > 50}\<close>
  and
  \<^verbatim>\<open>hist_dict_rep = {i: list(simulations).count(i) for i in set(simulations) if i <= 50}\<close>
  in \<open>histogram\<close>; the rest of the function draws the two dictionaries as bars.
  \<open>simulations\<close> is an array of integers. A dictionary is a map; the order in which
  Python walks \<open>set(simulations)\<close> does not show in it.
\<close>

definition hist_dict_dem :: "int list \<Rightarrow> (int \<rightharpoonup> nat)" where
  "hist_dict_dem simulations =
     map_of [(i, count_list simulations i). i \<leftarrow> remdups simulations, i > 50]"

definition hist_dict_rep :: "int list \<Rightarrow> (int \<rightharpoonup> nat)" where
  "hist_dict_rep simulations =
     map_of [(i, count_list simulations i). i \<leftarrow> remdups simulations, i \<le> 50]"

section \<open>The contract the specification words, for comparison\<close>

text \<open>
  The specification describes \<open>update\<close> and \<open>winProbability\<close> as validating operations
  with typed errors. These definitions follow the specification's words, not the notebook;
  they are only used to compare the notebook's behaviour with.
\<close>

datatype spec_error =
  InvalidParameterError | InvalidObservationError | InvalidDomainError | EmptySampleError

record SimulationResult =
  win_probability :: real
  sample_count :: nat

definition spec_update :: "BetaParams \<Rightarrow> SurveyObservation \<Rightarrow> spec_error + BetaParams" where
  "spec_update prior obs =
     (if alpha prior \<le> 0 \<or> beta prior \<le> 0 then Inl InvalidParameterError
      else if successes obs < 0 \<or> trials obs < successes obs then Inl InvalidObservationError
      else Inr \<lparr>alpha = alpha prior + of_int (successes obs),
                beta = beta prior + of_int (trials obs - successes obs)\<rparr>)"

definition spec_winProbability :: "real \<Rightarrow> real list \<Rightarrow> spec_error + SimulationResult" where
  "spec_winProbability threshold xs =
     (if xs = [] then Inl EmptySampleError
      else Inr \<lparr>win_probability =
                  real (length (filter (\<lambda>v. threshold < v) xs)) / real (length xs),
                sample_count = length xs\<rparr>)"

section \<open>Properties\<close>

subsection \<open>Auxiliary facts\<close>

lemma sum_list_elections:
  "sum_list (elections threshold p_d) = length (filter (\<lambda>v. threshold < v) p_d)"
  by (induction p_d) (simp_all add: elections_def)

lemma length_elections: "length (elections threshold p_d) = length p_d"
  by (simp add: elections_def)

lemma elections_Nil_iff: "elections threshold p_d = [] \<longleftrightarrow> p_d = []"
  by (simp add: elections_def)

subsection \<open>Posterior parameters\<close>

text \<open>
  C1. For a prior with both shape parameters positive and an observation with
  \<open>0 \<le> successes \<le> trials\<close>, \<open>update\<close> returns the parameters
  \<open>alpha + successes\<close> and \<open>beta + (trials - successes)\<close>, and both are strictly positive.
\<close>

theorem update_conjugate:
  assumes "0 < alpha prior" and "0 < beta prior"
    and "0 \<le> successes obs" and "successes obs \<le> trials obs"
  shows "update prior obs =
           \<lparr>alpha = alpha prior + of_int (successes obs),
            beta = beta prior + of_int (trials obs - successes obs)\<rparr>
         \<and> 0 < alpha (update prior obs) \<and> 0 < beta (update prior obs)"
proof -
  have "0 \<le> (of_int (successes obs) :: real)"
    using assms(3) by simp
  moreover have "0 \<le> (of_int (trials obs - successes obs) :: real)"
    using assms(4) by simp
  ultimately show ?thesis
    using assms(1,2) by (simp add: update_def add_pos_nonneg)
qed

theorem update_conjugate_witness:
  "update \<lparr>alpha = 1, beta = 1\<rparr> \<lparr>trials = 10, successes = 4\<rparr> = \<lparr>alpha = 5, beta = 7\<rparr>
   \<and> 0 < alpha (update \<lparr>alpha = 1, beta = 1\<rparr> \<lparr>trials = 10, successes = 4\<rparr>)
   \<and> 0 < beta (update \<lparr>alpha = 1, beta = 1\<rparr> \<lparr>trials = 10, successes = 4\<rparr>)"
  using update_conjugate [of "\<lparr>alpha = 1, beta = 1\<rparr>" "\<lparr>trials = 10, successes = 4\<rparr>"]
  by simp

text \<open>
  C4. Scenario 1 of the notebook: the prior Beta(7, 5) with 30 successes in 40 trials gives
  the posterior Beta(37, 15), whose mean \<open>alpha / (alpha + beta)\<close> is 37/52.
\<close>

theorem update_scenario_1:
  "update \<lparr>alpha = 7, beta = 5\<rparr> \<lparr>trials = 40, successes = 30\<rparr> = \<lparr>alpha = 37, beta = 15\<rparr>
   \<and> alpha (update \<lparr>alpha = 7, beta = 5\<rparr> \<lparr>trials = 40, successes = 30\<rparr>)
       / (alpha (update \<lparr>alpha = 7, beta = 5\<rparr> \<lparr>trials = 40, successes = 30\<rparr>)
          + beta (update \<lparr>alpha = 7, beta = 5\<rparr> \<lparr>trials = 40, successes = 30\<rparr>))
     = 37 / 52"
  by (simp add: update_def)

text \<open>
  Scenario 2 of the notebook: the prior Beta(10, 40) with 55 successes in 100 trials gives
  the posterior Beta(65, 85), whose mean is 65/150. (What the seeded draws from that
  posterior look like depends on numpy's generator and is not part of this development.)
\<close>

lemma update_scenario_2:
  "update \<lparr>alpha = 10, beta = 40\<rparr> \<lparr>trials = 100, successes = 55\<rparr> = \<lparr>alpha = 65, beta = 85\<rparr>
   \<and> alpha (update \<lparr>alpha = 10, beta = 40\<rparr> \<lparr>trials = 100, successes = 55\<rparr>)
       / (alpha (update \<lparr>alpha = 10, beta = 40\<rparr> \<lparr>trials = 100, successes = 55\<rparr>)
          + beta (update \<lparr>alpha = 10, beta = 40\<rparr> \<lparr>trials = 100, successes = 55\<rparr>))
     = 65 / 150"
  by (simp add: update_def)

subsection \<open>Simulated elections\<close>

text \<open>
  C2. The comparison with the threshold is strict: an entry of \<open>elections\<close> is 1 exactly
  when the sample value is greater than the threshold and 0 exactly when it is less or
  equal, so a value equal to the threshold counts as a loss; a sample that consists of the
  threshold value alone has win probability 0.
\<close>

theorem elections_strict:
  assumes "i < length p_d"
  shows "(elections threshold p_d ! i = 1 \<longleftrightarrow> threshold < p_d ! i)
         \<and> (elections threshold p_d ! i = 0 \<longleftrightarrow> p_d ! i \<le> threshold)
         \<and> (p_d ! i = threshold \<longrightarrow> elections threshold p_d ! i = 0)
         \<and> winProbability threshold [threshold] = Finite 0"
  using assms by (simp add: elections_def winProbability_def np_mean_def)

theorem elections_strict_witness:
  "elections (1/2) [1/2, 7/10] ! 0 = 0 \<and> elections (1/2) [1/2, 7/10] ! 1 = 1
   \<and> winProbability (1/2) [1/2] = Finite 0"
  using elections_strict [of 0 "[1/2, 7/10]" "1/2"] elections_strict [of 1 "[1/2, 7/10]" "1/2"]
  by simp

text \<open>
  C3, as stated, does not hold: the claim has \<open>winProbability\<close> return a
  \<open>SimulationResult\<close> with a \<open>sample_count\<close>, and the notebook's \<open>np.mean(elections)\<close>
  returns one number. That number does not carry the length of the sample: the samples
  \<open>[0.7]\<close> and \<open>[0.7, 0.7]\<close> give the same value 1, and the results the contract asks for
  differ in \<open>sample_count\<close>, so no reading of the returned number gives the contract's
  result.
\<close>

theorem winProbability_no_sample_count_counterexample:
  "winProbability (1/2) [7/10] = Finite 1
   \<and> winProbability (1/2) [7/10, 7/10] = Finite 1
   \<and> spec_winProbability (1/2) [7/10] = Inr \<lparr>win_probability = 1, sample_count = 1\<rparr>
   \<and> spec_winProbability (1/2) [7/10, 7/10] = Inr \<lparr>win_probability = 1, sample_count = 2\<rparr>
   \<and> \<not> (\<exists>decode. \<forall>p_d. p_d \<noteq> [] \<longrightarrow>
           spec_winProbability (1/2) p_d = Inr (decode (winProbability (1/2) p_d)))"
proof -
  have a: "winProbability (1/2) [7/10] = Finite 1"
    by (simp add: winProbability_def np_mean_def elections_def)
  have b: "winProbability (1/2) [7/10, 7/10] = Finite 1"
    by (simp add: winProbability_def np_mean_def elections_def)
  have c: "spec_winProbability (1/2) [7/10] = Inr \<lparr>win_probability = 1, sample_count = 1\<rparr>"
    by (simp add: spec_winProbability_def)
  have d: "spec_winProbability (1/2) [7/10, 7/10] = Inr \<lparr>win_probability = 1, sample_count = 2\<rparr>"
    by (simp add: spec_winProbability_def)
  have e: "\<not> (\<exists>decode. \<forall>p_d. p_d \<noteq> [] \<longrightarrow>
           spec_winProbability (1/2) p_d = Inr (decode (winProbability (1/2) p_d)))"
  proof
    assume "\<exists>decode. \<forall>p_d. p_d \<noteq> [] \<longrightarrow>
           spec_winProbability (1/2) p_d = Inr (decode (winProbability (1/2) p_d))"
    then obtain decode where dec: "\<And>p_d. p_d \<noteq> [] \<Longrightarrow>
           spec_winProbability (1/2) p_d = Inr (decode (winProbability (1/2) p_d))"
      by blast
    have "spec_winProbability (1/2) [7/10] = Inr (decode (Finite 1))"
      using dec [of "[7/10]"] a by simp
    moreover have "spec_winProbability (1/2) [7/10, 7/10] = Inr (decode (Finite 1))"
      using dec [of "[7/10, 7/10]"] b by simp
    ultimately have "spec_winProbability (1/2) [7/10] = spec_winProbability (1/2) [7/10, 7/10]"
      by (simp only:)
    then show False
      unfolding c d by simp
  qed
  show ?thesis
    using a b c d e by blast
qed

text \<open>
  C3, amended. On a non-empty sample \<open>winProbability\<close> returns one finite number: the
  number of sample values strictly greater than the threshold divided by the length of the
  sample, which lies between 0 and 1. It returns no result record and no sample count:
  the sample repeated twice gives the same value.
\<close>

theorem winProbability_fraction:
  assumes "p_d \<noteq> []"
  shows "(\<exists>r. winProbability threshold p_d = Finite r
              \<and> r = real (length (filter (\<lambda>v. threshold < v) p_d)) / real (length p_d)
              \<and> 0 \<le> r \<and> r \<le> 1)
         \<and> winProbability threshold (p_d @ p_d) = winProbability threshold p_d"
proof -
  have len: "0 < length p_d"
    using assms by simp
  have "length (filter (\<lambda>v. threshold < v) p_d) \<le> length p_d"
    by (rule length_filter_le)
  then have le1: "real (length (filter (\<lambda>v. threshold < v) p_d)) / real (length p_d) \<le> 1"
    using len by (simp add: divide_le_eq_1)
  have val: "winProbability threshold q =
           Finite (real (length (filter (\<lambda>v. threshold < v) q)) / real (length q))"
    if "q \<noteq> []" for q
    using that
    by (simp add: winProbability_def np_mean_def elections_Nil_iff sum_list_elections
        length_elections)
  have "real (length (filter (\<lambda>v. threshold < v) (p_d @ p_d))) / real (length (p_d @ p_d))
          = (2 * real (length (filter (\<lambda>v. threshold < v) p_d))) / (2 * real (length p_d))"
    by simp
  also have "\<dots> = real (length (filter (\<lambda>v. threshold < v) p_d)) / real (length p_d)"
    by (rule mult_divide_mult_cancel_left) simp
  finally have twice: "winProbability threshold (p_d @ p_d) = winProbability threshold p_d"
    using assms by (simp only: val [OF assms] val [of "p_d @ p_d"] append_is_Nil_conv
        simp_thms if_False not_False_eq_True)
  show ?thesis
    using le1 val [OF assms] twice by simp
qed

theorem winProbability_fraction_witness:
  "winProbability (1/2) [3/10, 1/2, 7/10, 9/10] = Finite (1/2)
   \<and> winProbability (1/2) ([3/10, 1/2, 7/10, 9/10] @ [3/10, 1/2, 7/10, 9/10]) = Finite (1/2)"
proof -
  have ne: "[3/10, 1/2, 7/10, 9/10] \<noteq> ([] :: real list)"
    by simp
  note th = winProbability_fraction [OF ne, of "1/2"]
  from th obtain r where r: "winProbability (1/2) [3/10, 1/2, 7/10, 9/10] = Finite r"
    and v: "r = real (length (filter (\<lambda>v. 1/2 < v) [3/10, 1/2, 7/10, 9/10 :: real]))
                / real (length [3/10, 1/2, 7/10, 9/10 :: real])"
    by blast
  from v have "r = 1/2"
    by simp
  with r have a: "winProbability (1/2) [3/10, 1/2, 7/10, 9/10] = Finite (1/2)"
    by simp
  from th have "winProbability (1/2) ([3/10, 1/2, 7/10, 9/10] @ [3/10, 1/2, 7/10, 9/10])
      = winProbability (1/2) [3/10, 1/2, 7/10, 9/10]"
    by blast
  with a show ?thesis
    by simp
qed

text \<open>
  C7, as the specification states it, does not hold: on the empty sample the contract
  asks for \<open>EmptySampleError\<close>, and the notebook's \<open>np.mean\<close> of the empty list returns
  not-a-number.
\<close>

theorem winProbability_empty_counterexample:
  "spec_winProbability (1/2) [] = Inl EmptySampleError \<and> winProbability (1/2) [] = NaN"
  by (simp add: spec_winProbability_def winProbability_def np_mean_def elections_def)

text \<open>
  C7, amended. \<open>winProbability\<close> raises nothing: on the empty sample, and only there, it
  returns not-a-number, for every threshold.
\<close>

theorem winProbability_NaN_iff:
  "winProbability threshold p_d = NaN \<longleftrightarrow> p_d = []"
  by (simp add: winProbability_def np_mean_def elections_Nil_iff)

subsection \<open>The sampling cell\<close>

text \<open>
  C6, as the specification states it, does not hold. The cell passes the posterior
  parameters to \<open>np.random.beta\<close> with no check of the prior or of the observation. With
  the prior Beta(1, 10) and 15 successes in 10 trials, where the contract asks for
  \<open>InvalidObservationError\<close>, the posterior parameters are \<open>(16, 5)\<close> and the cell draws
  from Beta(16, 5); with the prior \<open>alpha = -5\<close>, \<open>beta = 1\<close> and 30 successes in 40
  trials, where the contract asks for \<open>InvalidParameterError\<close>, it draws from
  Beta(25, 11). Both hold for whatever generator numpy has.
\<close>

theorem update_unvalidated_counterexample:
  "spec_update \<lparr>alpha = 1, beta = 10\<rparr> \<lparr>trials = 10, successes = 15\<rparr> = Inl InvalidObservationError
   \<and> update \<lparr>alpha = 1, beta = 10\<rparr> \<lparr>trials = 10, successes = 15\<rparr> = \<lparr>alpha = 16, beta = 5\<rparr>
   \<and> (\<forall>(np_random_seed :: int \<Rightarrow> nat) np_random_beta g.
         fst (sample np_random_seed np_random_beta
                (update \<lparr>alpha = 1, beta = 10\<rparr> \<lparr>trials = 10, successes = 15\<rparr>) 100000 42 g)
           = Inr (fst (np_random_beta (np_random_seed 42) 16 5 100000)))
   \<and> spec_update \<lparr>alpha = - 5, beta = 1\<rparr> \<lparr>trials = 40, successes = 30\<rparr> = Inl InvalidParameterError
   \<and> update \<lparr>alpha = - 5, beta = 1\<rparr> \<lparr>trials = 40, successes = 30\<rparr> = \<lparr>alpha = 25, beta = 11\<rparr>
   \<and> (\<forall>(np_random_seed :: int \<Rightarrow> nat) np_random_beta g.
         fst (sample np_random_seed np_random_beta
                (update \<lparr>alpha = - 5, beta = 1\<rparr> \<lparr>trials = 40, successes = 30\<rparr>) 100000 42 g)
           = Inr (fst (np_random_beta (np_random_seed 42) 25 11 100000)))"
  by (simp add: spec_update_def update_def sample_def Let_def split_beta)

text \<open>
  C6, amended. The only check on the way to the draws is the one \<open>np.random.beta\<close> makes
  on the posterior parameters. For a seed and a size that numpy accepts, the cell raises
  \<open>ValueError\<close> exactly when \<open>alpha + successes \<le> 0\<close> or
  \<open>beta + (trials - successes) \<le> 0\<close>; on every other input, valid or not, it returns the
  draws from Beta(alpha + successes, beta + (trials - successes)). Whenever the validating
  contract accepts the input the cell draws from the contract's posterior; when the
  contract rejects it the cell either raises \<open>ValueError\<close> or draws all the same.
\<close>

theorem update_unvalidated:
  assumes "0 \<le> seed" and "seed < 2 ^ 32" and "0 \<le> count"
  shows "fst (sample np_random_seed np_random_beta (update prior obs) count seed g) =
           (if alpha prior + of_int (successes obs) \<le> 0
               \<or> beta prior + of_int (trials obs - successes obs) \<le> 0
            then Inl ValueError
            else Inr (fst (np_random_beta (np_random_seed seed)
                             (alpha prior + of_int (successes obs))
                             (beta prior + of_int (trials obs - successes obs))
                             (nat count))))
         \<and> (\<forall>post. spec_update prior obs = Inr post \<longrightarrow>
               fst (sample np_random_seed np_random_beta (update prior obs) count seed g) =
                 Inr (fst (np_random_beta (np_random_seed seed) (alpha post) (beta post)
                             (nat count))))"
proof -
  have cell: "fst (sample np_random_seed np_random_beta (update prior obs) count seed g) =
           (if alpha prior + of_int (successes obs) \<le> 0
               \<or> beta prior + of_int (trials obs - successes obs) \<le> 0
            then Inl ValueError
            else Inr (fst (np_random_beta (np_random_seed seed)
                             (alpha prior + of_int (successes obs))
                             (beta prior + of_int (trials obs - successes obs))
                             (nat count))))"
    using assms by (simp add: sample_def update_def Let_def split_beta)
  have contract: "fst (sample np_random_seed np_random_beta (update prior obs) count seed g) =
                 Inr (fst (np_random_beta (np_random_seed seed) (alpha post) (beta post)
                             (nat count)))"
    if "spec_update prior obs = Inr post" for post
  proof -
    from that have valid: "0 < alpha prior" "0 < beta prior"
        "0 \<le> successes obs" "successes obs \<le> trials obs"
      and post: "post = \<lparr>alpha = alpha prior + of_int (successes obs),
                          beta = beta prior + of_int (trials obs - successes obs)\<rparr>"
      by (auto simp add: spec_update_def split: if_splits)
    have "0 \<le> (of_int (successes obs) :: real)"
      using valid(3) by simp
    with valid(1) have pa: "0 < alpha prior + of_int (successes obs)"
      by (rule add_pos_nonneg)
    have "0 \<le> (of_int (trials obs - successes obs) :: real)"
      using valid(4) by simp
    with valid(2) have pb: "0 < beta prior + of_int (trials obs - successes obs)"
      by (rule add_pos_nonneg)
    show ?thesis
      using cell pa pb by (simp add: post)
  qed
  show ?thesis
    using cell contract by blast
qed

theorem update_unvalidated_witness:
  "(\<forall>(np_random_seed :: int \<Rightarrow> nat) np_random_beta g.
      fst (sample np_random_seed np_random_beta
             (update \<lparr>alpha = 7, beta = 5\<rparr> \<lparr>trials = 40, successes = 30\<rparr>) 100000 42 g)
        = Inr (fst (np_random_beta (np_random_seed 42) 37 15 100000)))
   \<and> (\<forall>(np_random_seed :: int \<Rightarrow> nat) np_random_beta g.
      fst (sample np_random_seed np_random_beta
             (update \<lparr>alpha = 1, beta = 1\<rparr> \<lparr>trials = 10, successes = 15\<rparr>) 100000 42 g)
        = Inl ValueError)"
proof -
  have h: "(0::int) \<le> 42" "(42::int) < 2 ^ 32" "(0::int) \<le> 100000"
    by simp_all
  have a: "fst (sample np_random_seed np_random_beta
             (update \<lparr>alpha = 7, beta = 5\<rparr> \<lparr>trials = 40, successes = 30\<rparr>) 100000 42 g)
        = Inr (fst (np_random_beta (np_random_seed 42) 37 15 100000))"
    for np_random_seed :: "int \<Rightarrow> nat" and np_random_beta g
    using update_unvalidated [OF h, of np_random_seed np_random_beta
        "\<lparr>alpha = 7, beta = 5\<rparr>" "\<lparr>trials = 40, successes = 30\<rparr>" g]
    by simp
  have b: "fst (sample np_random_seed np_random_beta
             (update \<lparr>alpha = 1, beta = 1\<rparr> \<lparr>trials = 10, successes = 15\<rparr>) 100000 42 g)
        = Inl ValueError"
    for np_random_seed :: "int \<Rightarrow> nat" and np_random_beta g
    using update_unvalidated [OF h, of np_random_seed np_random_beta
        "\<lparr>alpha = 1, beta = 1\<rparr>" "\<lparr>trials = 10, successes = 15\<rparr>" g]
    by simp
  show ?thesis
    using a b by blast
qed

subsection \<open>The plot of prior, likelihood and posterior\<close>

lemma xpowy_pos: "0 < x \<Longrightarrow> xpowy x y = Finite (x powr y)"
  by (simp add: xpowy_def)

lemma xpowy_one: "xpowy 1 y = Finite 1"
  by (simp add: xpowy_def)

lemma xpowy_zero:
  "xpowy 0 y = (if y = 0 then Finite 1 else if 0 < y then Finite 0 else PosInf)"
  by (simp add: xpowy_def)

lemma posterior_constant_pos:
  assumes "0 \<le> k" "k \<le> n" "0 < B a b" "0 < B (a + of_int k) (b + of_int (n - k))"
  shows "0 < posterior_constant B a b n k"
proof -
  have "nat k \<le> nat n" using assms by simp
  then have "0 < (nat n choose nat k)" by simp
  then show ?thesis using assms by (simp add: posterior_constant_def)
qed

lemma beta_pdf_interior:
  assumes "0 < a" "0 < b" "0 < x" "x < 1"
  shows "beta_pdf B a b x = Finite (x powr (a - 1) * (1 - x) powr (b - 1) * (1 / B a b))"
  using assms by (simp add: beta_pdf_def xpowy_pos)

lemma binom_pmf_support:
  assumes "0 \<le> k" "k \<le> n" "0 \<le> p" "p \<le> 1"
  shows "binom_pmf n p k = Finite (real (nat n choose nat k) * p ^ nat k * (1 - p) ^ nat (n - k))"
  using assms by (simp add: binom_pmf_def)

lemma interior:
  assumes "0 < a" "0 < b" "0 \<le> k" "k \<le> n"
    and "0 < B a b" "0 < B (a + of_int k) (b + of_int (n - k))"
    and "0 < x" "x < 1"
  shows "np_multiply (beta_pdf B a b x) (binom_pmf n x k) =
         np_multiply (Finite (posterior_constant B a b n k))
           (beta_pdf B (a + of_int k) (b + of_int (n - k)) x)"
proof -
  define a' b' where "a' = a + of_int k" and "b' = b + of_int (n - k)"
  define c where "c = real (nat n choose nat k)"
  have x1: "0 < 1 - x" using assms by simp
  have pos': "0 < a'" "0 < b'"
    using assms by (simp_all add: a'_def b'_def add_pos_nonneg)
  have pk: "x ^ nat k = x powr of_int k"
    using assms by (simp add: powr_realpow [symmetric])
  have pnk: "(1 - x) ^ nat (n - k) = (1 - x) powr of_int (n - k)"
    using assms x1 by (simp add: powr_realpow [symmetric])
  have "a' - 1 = (a - 1) + of_int k"
    by (simp add: a'_def)
  then have e1: "x powr (a' - 1) = x powr (a - 1) * x ^ nat k"
    by (simp only: powr_add pk)
  have "b' - 1 = (b - 1) + of_int (n - k)"
    by (simp add: b'_def)
  then have e2: "(1 - x) powr (b' - 1) = (1 - x) powr (b - 1) * (1 - x) ^ nat (n - k)"
    by (simp only: powr_add pnk)
  have B': "B a' b' \<noteq> 0"
    using assms(6) by (simp add: a'_def b'_def)
  have lhs: "np_multiply (beta_pdf B a b x) (binom_pmf n x k) =
        Finite (x powr (a - 1) * (1 - x) powr (b - 1) * (1 / B a b)
                * (c * x ^ nat k * (1 - x) ^ nat (n - k)))"
    using assms by (simp add: beta_pdf_interior binom_pmf_support c_def)
  have rhs: "np_multiply (Finite (posterior_constant B a b n k)) (beta_pdf B a' b' x) =
        Finite (c * B a' b' / B a b * (x powr (a' - 1) * (1 - x) powr (b' - 1) * (1 / B a' b')))"
    using assms(7,8) pos'
    by (simp add: beta_pdf_interior posterior_constant_def c_def a'_def b'_def)
  have "x powr (a - 1) * (1 - x) powr (b - 1) * (1 / B a b)
                * (c * x ^ nat k * (1 - x) ^ nat (n - k))
      = c * B a' b' / B a b * (x powr (a' - 1) * (1 - x) powr (b' - 1) * (1 / B a' b'))"
    unfolding e1 e2 using B' by simp
  then show ?thesis
    using lhs rhs by (simp add: a'_def b'_def)
qed

lemma beta_pdf_zero:
  assumes "0 < a" "0 < b" "0 < B a b"
  shows "beta_pdf B a b 0 =
           (if a = 1 then Finite (1 / B a b) else if 1 < a then Finite 0 else PosInf)"
  using assms by (simp add: beta_pdf_def xpowy_zero xpowy_one)

lemma beta_pdf_one:
  assumes "0 < a" "0 < b" "0 < B a b"
  shows "beta_pdf B a b 1 =
           (if b = 1 then Finite (1 / B a b) else if 1 < b then Finite 0 else PosInf)"
  using assms by (simp add: beta_pdf_def xpowy_zero xpowy_one)

lemma binom_pmf_zero:
  assumes "0 \<le> k" "k \<le> n"
  shows "binom_pmf n 0 k = Finite (if k = 0 then 1 else 0)"
  using assms by (simp add: binom_pmf_def power_0_left)

lemma binom_pmf_one:
  assumes "0 \<le> k" "k \<le> n"
  shows "binom_pmf n 1 k = Finite (if k = n then 1 else 0)"
  using assms by (simp add: binom_pmf_def power_0_left)

lemma endpoint_cases:
  fixes a a' P Q C :: real and k :: int
  assumes prior: "p0 = (if a = 1 then Finite P else if 1 < a then Finite 0 else PosInf)"
    and post: "q0 = (if a' = 1 then Finite Q else if 1 < a' then Finite 0 else PosInf)"
    and lik: "l0 = Finite (if k = 0 then 1 else 0)"
    and a': "a' = a + of_int k" and k: "0 \<le> k" and a: "0 < a" and C: "0 < C"
    and CQ: "k = 0 \<Longrightarrow> C * Q = P"
  shows "(np_multiply p0 l0 = np_multiply (Finite C) q0) \<longleftrightarrow> \<not> (a < 1 \<and> 1 \<le> k)"
proof (cases "k = 0")
  case True
  then have eq: "a' = a"
    using a' by simp
  consider "a = 1" | "1 < a" | "a < 1"
    by linarith
  then show ?thesis
  proof cases
    case 1
    then show ?thesis
      using True eq CQ by (simp add: prior post lik)
  next
    case 2
    then show ?thesis
      using True eq by (simp add: prior post lik)
  next
    case 3
    then show ?thesis
      using True eq C by (simp add: prior post lik)
  qed
next
  case False
  then have k1: "1 \<le> k"
    using k by simp
  then have "1 \<le> (of_int k :: real)"
    by simp
  then have gt: "1 < a'"
    using a a' by linarith
  consider "a = 1" | "1 < a" | "a < 1"
    by linarith
  then show ?thesis
  proof cases
    case 1
    then show ?thesis
      using False gt by (simp add: prior post lik)
  next
    case 2
    then show ?thesis
      using False gt by (simp add: prior post lik)
  next
    case 3
    then show ?thesis
      using False gt k1 by (simp add: prior post lik)
  qed
qed

lemma at_zero:
  assumes "0 < a" "0 < b" "0 \<le> k" "k \<le> n"
    and "0 < B a b" "0 < B (a + of_int k) (b + of_int (n - k))"
  shows "(np_multiply (beta_pdf B a b 0) (binom_pmf n 0 k) =
          np_multiply (Finite (posterior_constant B a b n k))
            (beta_pdf B (a + of_int k) (b + of_int (n - k)) 0))
         \<longleftrightarrow> \<not> (a < 1 \<and> 1 \<le> k)"
proof (rule endpoint_cases)
  show "beta_pdf B a b 0 =
           (if a = 1 then Finite (1 / B a b) else if 1 < a then Finite 0 else PosInf)"
    using assms(1,2,5) by (rule beta_pdf_zero)
  have "0 < a + of_int k" "0 < b + of_int (n - k)"
    using assms by (simp_all add: add_pos_nonneg)
  then show "beta_pdf B (a + of_int k) (b + of_int (n - k)) 0 =
           (if a + of_int k = 1 then Finite (1 / B (a + of_int k) (b + of_int (n - k)))
            else if 1 < a + of_int k then Finite 0 else PosInf)"
    using assms(6) by (rule beta_pdf_zero)
  show "binom_pmf n 0 k = Finite (if k = 0 then 1 else 0)"
    using assms(3,4) by (rule binom_pmf_zero)
  show "0 < posterior_constant B a b n k"
    using assms(3-6) by (rule posterior_constant_pos)
  show "posterior_constant B a b n k * (1 / B (a + of_int k) (b + of_int (n - k))) = 1 / B a b"
    if "k = 0"
    using that assms(6) by (simp add: posterior_constant_def)
qed (use assms in simp_all)

lemma at_one:
  assumes "0 < a" "0 < b" "0 \<le> k" "k \<le> n"
    and "0 < B a b" "0 < B (a + of_int k) (b + of_int (n - k))"
  shows "(np_multiply (beta_pdf B a b 1) (binom_pmf n 1 k) =
          np_multiply (Finite (posterior_constant B a b n k))
            (beta_pdf B (a + of_int k) (b + of_int (n - k)) 1))
         \<longleftrightarrow> \<not> (b < 1 \<and> k < n)"
proof -
  have "(np_multiply (beta_pdf B a b 1) (binom_pmf n 1 k) =
          np_multiply (Finite (posterior_constant B a b n k))
            (beta_pdf B (a + of_int k) (b + of_int (n - k)) 1))
         \<longleftrightarrow> \<not> (b < 1 \<and> 1 \<le> n - k)"
  proof (rule endpoint_cases)
    show "beta_pdf B a b 1 =
           (if b = 1 then Finite (1 / B a b) else if 1 < b then Finite 0 else PosInf)"
      using assms(1,2,5) by (rule beta_pdf_one)
    have "0 < a + of_int k" "0 < b + of_int (n - k)"
      using assms by (simp_all add: add_pos_nonneg)
    then show "beta_pdf B (a + of_int k) (b + of_int (n - k)) 1 =
           (if b + of_int (n - k) = 1 then Finite (1 / B (a + of_int k) (b + of_int (n - k)))
            else if 1 < b + of_int (n - k) then Finite 0 else PosInf)"
      using assms(6) by (rule beta_pdf_one)
    show "binom_pmf n 1 k = Finite (if n - k = 0 then 1 else 0)"
      using assms(3,4) by (simp add: binom_pmf_one)
    show "0 < posterior_constant B a b n k"
      using assms(3-6) by (rule posterior_constant_pos)
    show "posterior_constant B a b n k * (1 / B (a + of_int k) (b + of_int (n - k))) = 1 / B a b"
      if "n - k = 0"
      using that assms(6) by (simp add: posterior_constant_def)
  qed (use assms in simp_all)
  moreover have "1 \<le> n - k \<longleftrightarrow> k < n"
    by linarith
  ultimately show ?thesis
    by (simp only:)
qed

lemma posterior_pointwise:
  assumes "0 < a" "0 < b" "0 \<le> k" "k \<le> n"
    and "0 < B a b" "0 < B (a + of_int k) (b + of_int (n - k))"
    and "0 \<le> x" "x \<le> 1"
  shows "(np_multiply (beta_pdf B a b x) (binom_pmf n x k) =
          np_multiply (Finite (posterior_constant B a b n k))
            (beta_pdf B (a + of_int k) (b + of_int (n - k)) x))
         \<longleftrightarrow> \<not> (x = 0 \<and> a < 1 \<and> 1 \<le> k) \<and> \<not> (x = 1 \<and> b < 1 \<and> k < n)"
proof -
  consider "x = 0" | "x = 1" | "0 < x" "x < 1"
    using assms(7,8) by linarith
  then show ?thesis
  proof cases
    case 1
    then show ?thesis
      using at_zero [OF assms(1-6)] by simp
  next
    case 2
    then show ?thesis
      using at_one [OF assms(1-6)] by simp
  next
    case 3
    then show ?thesis
      using interior [OF assms(1-6) 3] by simp
  qed
qed

lemma plot_beta_binomial_Inr:
  assumes "plot_beta_binomial B a b n_trials n_successes n_steps = Inr pl"
  shows "posterior_curve pl =
           [(x, np_multiply (beta_pdf B a b x) (binom_pmf n_trials x n_successes)).
              x \<leftarrow> linspace01 n_steps]"
    and "vlines pl = [a / (a + b), of_int n_successes / of_int n_trials,
                      (a + of_int n_successes) / (a + b + of_int n_trials)]"
proof -
  have zip_map: "zip xs (map2 h (map f xs) (map g xs)) = map (\<lambda>x. (x, h (f x) (g x))) xs"
    for xs :: "real list" and h :: "npfloat \<Rightarrow> npfloat \<Rightarrow> npfloat" and f g
    by (induction xs) simp_all
  show "posterior_curve pl =
           [(x, np_multiply (beta_pdf B a b x) (binom_pmf n_trials x n_successes)).
              x \<leftarrow> linspace01 n_steps]"
    using assms
    by (auto simp add: plot_beta_binomial_def Let_def zip_map split: if_splits)
  show "vlines pl = [a / (a + b), of_int n_successes / of_int n_trials,
                      (a + of_int n_successes) / (a + b + of_int n_trials)]"
    using assms
    by (auto simp add: plot_beta_binomial_def Let_def split: if_splits)
qed

lemma linspace01_range: "x \<in> set (linspace01 n_steps) \<Longrightarrow> 0 \<le> x \<and> x \<le> 1"
  by (auto simp add: linspace01_def divide_le_eq_1 split: if_splits)

lemma linspace01_3: "linspace01 3 = [0, 1/2, 1]"
  by (simp add: linspace01_def upt_conv_Cons)

lemma linspace01_2: "linspace01 2 = [0, 1]"
  by (simp add: linspace01_def upt_conv_Cons)

text \<open>
  A run on a grid of three points, with the prior Beta(2, 1) and two successes in two
  trials. (For \<open>b = 1\<close> the Beta function is \<open>B(a, 1) = 1/a\<close>.)
\<close>

lemma plot_example:
  "plot_beta_binomial (\<lambda>a b. 1 / a) 2 1 2 2 3 =
     Inr \<lparr>vlines = [2 / 3, 1, 4 / 5],
          prior_curve = [(0, Finite 0), (1 / 2, Finite 1), (1, Finite 2)],
          likelihood_curve = [(0, Finite 0), (1 / 2, Finite (1 / 4)), (1, Finite 1)],
          posterior_curve = [(0, Finite 0), (1 / 2, Finite (1 / 4)), (1, Finite 2)]\<rparr>"
  by (simp add: plot_beta_binomial_def linspace01_3 beta_pdf_def binom_pmf_def xpowy_def
      Let_def power2_eq_square)

text \<open>
  C9, as stated, does not hold at the ends of the grid. With \<open>a = 1/2\<close>, \<open>b = 1\<close>,
  one success in one trial and the grid \<open>[0, 1]\<close>, the prior density at 0 is infinite and
  the likelihood there is 0, so the plotted product at 0 is not-a-number, while the density
  of the posterior Beta(3/2, 1) at 0 is 0: no constant makes the two agree.
  (For \<open>b = 1\<close> the Beta function is \<open>B(a, 1) = 1/a\<close>.)
\<close>

theorem plot_beta_binomial_endpoint_counterexample:
  "plot_beta_binomial (\<lambda>a b. 1 / a) (1 / 2) 1 1 1 2 =
     Inr \<lparr>vlines = [1 / 3, 1, 3 / 5],
          prior_curve = [(0, PosInf), (1, Finite (1 / 2))],
          likelihood_curve = [(0, Finite 0), (1, Finite 1)],
          posterior_curve = [(0, NaN), (1, Finite (1 / 2))]\<rparr>
   \<and> beta_pdf (\<lambda>a b. 1 / a) (1 / 2 + of_int 1) (1 + of_int (1 - 1)) 0 = Finite 0
   \<and> \<not> (\<exists>c. np_multiply (beta_pdf (\<lambda>a b. 1 / a) (1 / 2) 1 0) (binom_pmf 1 0 1) =
              np_multiply (Finite c)
                (beta_pdf (\<lambda>a b. 1 / a) (1 / 2 + of_int 1) (1 + of_int (1 - 1)) 0))"
  by (simp add: plot_beta_binomial_def linspace01_2 beta_pdf_def binom_pmf_def xpowy_def
      Let_def)

text \<open>
  C9, amended. Let \<open>a, b > 0\<close> and \<open>0 \<le> n_successes \<le> n_trials\<close>, and let
  \<open>plot_beta_binomial\<close> return. The plotted posterior curve is the pointwise product of
  the prior density and the likelihood over the grid. For every \<open>x\<close> in \<open>[0, 1]\<close> that
  product is the density of Beta(a + n_successes, b + n_trials - n_successes) at \<open>x\<close> times
  a positive constant that does not depend on \<open>x\<close>, except at \<open>x = 0\<close> when \<open>a < 1\<close> and
  \<open>n_successes \<ge> 1\<close>, and at \<open>x = 1\<close> when \<open>b < 1\<close> and \<open>n_successes < n_trials\<close>. The third
  dashed line is at \<open>(a + n_successes) / (a + b + n_trials)\<close>, the mean of that posterior.
\<close>

theorem plot_beta_binomial_posterior:
  assumes "0 < a" and "0 < b" and "0 \<le> n_successes" and "n_successes \<le> n_trials"
    and "0 < B a b"
    and "0 < B (a + of_int n_successes) (b + of_int (n_trials - n_successes))"
    and "plot_beta_binomial B a b n_trials n_successes n_steps = Inr pl"
  shows "posterior_curve pl =
           [(x, np_multiply (beta_pdf B a b x) (binom_pmf n_trials x n_successes)).
              x \<leftarrow> linspace01 n_steps]
         \<and> (\<forall>x. 0 \<le> x \<and> x \<le> 1 \<longrightarrow>
              ((np_multiply (beta_pdf B a b x) (binom_pmf n_trials x n_successes) =
                np_multiply (Finite (posterior_constant B a b n_trials n_successes))
                  (beta_pdf B (a + of_int n_successes)
                     (b + of_int (n_trials - n_successes)) x))
               \<longleftrightarrow> \<not> (x = 0 \<and> a < 1 \<and> 1 \<le> n_successes)
                    \<and> \<not> (x = 1 \<and> b < 1 \<and> n_successes < n_trials)))
         \<and> 0 < posterior_constant B a b n_trials n_successes
         \<and> vlines pl ! 2 = (a + of_int n_successes) / (a + b + of_int n_trials)
         \<and> vlines pl ! 2 =
             alpha (update \<lparr>alpha = a, beta = b\<rparr>
                      \<lparr>trials = n_trials, successes = n_successes\<rparr>)
             / (alpha (update \<lparr>alpha = a, beta = b\<rparr>
                         \<lparr>trials = n_trials, successes = n_successes\<rparr>)
                + beta (update \<lparr>alpha = a, beta = b\<rparr>
                          \<lparr>trials = n_trials, successes = n_successes\<rparr>))"
proof -
  have v: "vlines pl ! 2 = (a + of_int n_successes) / (a + b + of_int n_trials)"
    using plot_beta_binomial_Inr(2) [OF assms(7)] by simp
  have "a + of_int n_successes + (b + of_int (n_trials - n_successes)) = a + b + of_int n_trials"
    by simp
  then have m: "vlines pl ! 2 =
             alpha (update \<lparr>alpha = a, beta = b\<rparr>
                      \<lparr>trials = n_trials, successes = n_successes\<rparr>)
             / (alpha (update \<lparr>alpha = a, beta = b\<rparr>
                         \<lparr>trials = n_trials, successes = n_successes\<rparr>)
                + beta (update \<lparr>alpha = a, beta = b\<rparr>
                          \<lparr>trials = n_trials, successes = n_successes\<rparr>))"
    using v by (simp add: update_def)
  show ?thesis
    using plot_beta_binomial_Inr(1) [OF assms(7)] posterior_pointwise [OF assms(1-6)]
      posterior_constant_pos [OF assms(3-6)] v m
    by blast
qed

theorem plot_beta_binomial_posterior_witness:
  "plot_beta_binomial (\<lambda>a b. 1 / a) 2 1 2 2 3 =
     Inr \<lparr>vlines = [2 / 3, 1, 4 / 5],
          prior_curve = [(0, Finite 0), (1 / 2, Finite 1), (1, Finite 2)],
          likelihood_curve = [(0, Finite 0), (1 / 2, Finite (1 / 4)), (1, Finite 1)],
          posterior_curve = [(0, Finite 0), (1 / 2, Finite (1 / 4)), (1, Finite 2)]\<rparr>
   \<and> np_multiply (beta_pdf (\<lambda>a b. 1 / a) 2 1 (1 / 2)) (binom_pmf 2 (1 / 2) 2) =
       np_multiply (Finite (posterior_constant (\<lambda>a b. 1 / a) 2 1 2 2))
         (beta_pdf (\<lambda>a b. 1 / a) (2 + of_int 2) (1 + of_int (2 - 2)) (1 / 2))
   \<and> 0 < posterior_constant (\<lambda>a b. 1 / a) 2 1 2 2
   \<and> (2 + of_int 2) / (2 + 1 + of_int 2) = (4 / 5 :: real)"
proof -
  let ?B = "\<lambda>a b :: real. 1 / a"
  let ?pl = "\<lparr>vlines = [2 / 3, 1, 4 / 5],
          prior_curve = [(0, Finite 0), (1 / 2, Finite 1), (1, Finite 2)],
          likelihood_curve = [(0, Finite 0), (1 / 2, Finite (1 / 4)), (1, Finite 1)],
          posterior_curve = [(0, Finite 0), (1 / 2, Finite (1 / 4)), (1, Finite 2)]\<rparr>"
  have ex: "plot_beta_binomial ?B 2 1 2 2 3 = Inr ?pl"
    by (fact plot_example)
  have h: "(0::real) < 2" "(0::real) < 1" "(0::int) \<le> 2" "(2::int) \<le> 2"
    "0 < ?B (2::real) (1::real)" "0 < ?B ((2::real) + of_int 2) ((1::real) + of_int (2 - 2))"
    by simp_all
  note th = plot_beta_binomial_posterior [OF h ex]
  from th have "\<forall>x. 0 \<le> x \<and> x \<le> 1 \<longrightarrow>
              ((np_multiply (beta_pdf ?B 2 1 x) (binom_pmf 2 x 2) =
                np_multiply (Finite (posterior_constant ?B 2 1 2 2))
                  (beta_pdf ?B (2 + of_int 2) (1 + of_int (2 - 2)) x))
               \<longleftrightarrow> \<not> (x = 0 \<and> (2::real) < 1 \<and> (1::int) \<le> 2)
                    \<and> \<not> (x = 1 \<and> (1::real) < 1 \<and> (2::int) < 2))"
    by blast
  then have pt: "np_multiply (beta_pdf ?B 2 1 (1 / 2)) (binom_pmf 2 (1 / 2) 2) =
                np_multiply (Finite (posterior_constant ?B 2 1 2 2))
                  (beta_pdf ?B (2 + of_int 2) (1 + of_int (2 - 2)) (1 / 2))"
    by simp
  from th have c: "0 < posterior_constant ?B 2 1 2 2"
    by blast
  from th have "vlines ?pl ! 2 = (2 + of_int 2) / (2 + 1 + of_int 2)"
    by blast
  then have v: "(2 + of_int 2) / (2 + 1 + of_int 2) = (4 / 5 :: real)"
    by simp
  show ?thesis
    using ex pt c v by blast
qed

section \<open>Properties of the histogram\<close>

lemma map_of_comprehension:
  "map_of [(i, f i). i \<leftarrow> xs, P i] k = (if k \<in> set xs \<and> P k then Some (f k) else None)"
  by (induction xs) auto

lemma hist_dict_dem_apply:
  "hist_dict_dem simulations i =
     (if i \<in> set simulations \<and> 50 < i then Some (count_list simulations i) else None)"
  by (simp add: hist_dict_dem_def map_of_comprehension)

lemma hist_dict_rep_apply:
  "hist_dict_rep simulations i =
     (if i \<in> set simulations \<and> i \<le> 50 then Some (count_list simulations i) else None)"
  by (simp add: hist_dict_rep_def map_of_comprehension)

lemma dom_hist_dict_dem: "dom (hist_dict_dem simulations) = {v \<in> set simulations. 50 < v}"
  by (auto simp add: dom_def hist_dict_dem_apply)

lemma dom_hist_dict_rep: "dom (hist_dict_rep simulations) = {v \<in> set simulations. v \<le> 50}"
  by (auto simp add: dom_def hist_dict_rep_apply)

lemma hist_values_sum:
  "(\<Sum>i \<in> dom (hist_dict_dem simulations). the (hist_dict_dem simulations i))
   + (\<Sum>i \<in> dom (hist_dict_rep simulations). the (hist_dict_rep simulations i))
   = length simulations"
proof -
  let ?D = "{v \<in> set simulations. 50 < v}" and ?R = "{v \<in> set simulations. v \<le> 50}"
  have d: "(\<Sum>i \<in> dom (hist_dict_dem simulations). the (hist_dict_dem simulations i))
             = sum (count_list simulations) ?D"
    unfolding dom_hist_dict_dem by (rule sum.cong) (simp_all add: hist_dict_dem_apply)
  have r: "(\<Sum>i \<in> dom (hist_dict_rep simulations). the (hist_dict_rep simulations i))
             = sum (count_list simulations) ?R"
    unfolding dom_hist_dict_rep by (rule sum.cong) (simp_all add: hist_dict_rep_apply)
  have un: "?D \<union> ?R = set simulations" and dis: "?D \<inter> ?R = {}"
    by auto
  have "sum (count_list simulations) ?D + sum (count_list simulations) ?R
          = sum (count_list simulations) (?D \<union> ?R)"
    using dis by (simp add: sum.union_disjoint)
  also have "\<dots> = length simulations"
    unfolding un by (rule sum_count_set) simp_all
  finally show ?thesis
    using d r by simp
qed

text \<open>
  C10. The two dictionaries split the observed seat counts: the keys of \<open>hist_dict_dem\<close>
  are the values of \<open>simulations\<close> greater than 50, the keys of \<open>hist_dict_rep\<close> those
  of at most 50, so every value is a key of exactly one of them; each key maps to the
  number of its occurrences in \<open>simulations\<close>; and the values of both dictionaries
  together sum to the length of \<open>simulations\<close>.
\<close>

theorem histogram_partition:
  "dom (hist_dict_dem simulations) = {v \<in> set simulations. 50 < v}
   \<and> dom (hist_dict_rep simulations) = {v \<in> set simulations. v \<le> 50}
   \<and> dom (hist_dict_dem simulations) \<union> dom (hist_dict_rep simulations) = set simulations
   \<and> dom (hist_dict_dem simulations) \<inter> dom (hist_dict_rep simulations) = {}
   \<and> hist_dict_dem simulations i =
       (if i \<in> set simulations \<and> 50 < i then Some (count_list simulations i) else None)
   \<and> hist_dict_rep simulations i =
       (if i \<in> set simulations \<and> i \<le> 50 then Some (count_list simulations i) else None)
   \<and> (\<Sum>i \<in> dom (hist_dict_dem simulations). the (hist_dict_dem simulations i))
     + (\<Sum>i \<in> dom (hist_dict_rep simulations). the (hist_dict_rep simulations i))
     = length simulations"
proof -
  have "dom (hist_dict_dem simulations) \<union> dom (hist_dict_rep simulations) = set simulations"
    unfolding dom_hist_dict_dem dom_hist_dict_rep by auto
  moreover have "dom (hist_dict_dem simulations) \<inter> dom (hist_dict_rep simulations) = {}"
    unfolding dom_hist_dict_dem dom_hist_dict_rep by auto
  ultimately show ?thesis
    using dom_hist_dict_dem dom_hist_dict_rep hist_dict_dem_apply hist_dict_rep_apply
      hist_values_sum by blast
qed

end
